theory Spec2Isabelle
  imports Complex_Main "HOL-Library.Log_Nat"
begin

section \<open>JavaScript values used by \<^verbatim>\<open>server.ts\<close>\<close>

subsection \<open>Strings\<close>

text \<open>
  A JavaScript string is a sequence of UTF-16 code units; \<^verbatim>\<open>length\<close>, the regular
  expressions of the server (none has the \<^verbatim>\<open>u\<close> flag) and \<^verbatim>\<open>trim\<close> all work on
  code units. A code unit is a natural number below 65536.
\<close>

type_synonym jsstring = "nat list"

definition str :: "string \<Rightarrow> jsstring" where
  "str s = map of_char s"

text \<open>
  The class \<^verbatim>\<open>\s\<close> of a regular expression, which is also what \<^verbatim>\<open>trim\<close> strips:
  WhiteSpace (TAB, VT, FF, SP, NBSP, ZWNBSP and the category Zs) and LineTerminator
  (LF, CR, LS, PS).
\<close>

definition isWhiteSpace :: "nat \<Rightarrow> bool" where
  "isWhiteSpace c \<longleftrightarrow>
     c = 9 \<or> c = 10 \<or> c = 11 \<or> c = 12 \<or> c = 13 \<or> c = 32 \<or> c = 160 \<or> c = 5760 \<or>
     (8192 \<le> c \<and> c \<le> 8202) \<or> c = 8232 \<or> c = 8233 \<or> c = 8239 \<or> c = 8287 \<or>
     c = 12288 \<or> c = 65279"

text \<open>\<^verbatim>\<open>s.trim()\<close>\<close>

definition trim :: "jsstring \<Rightarrow> jsstring" where
  "trim s = rev (dropWhile isWhiteSpace (rev (dropWhile isWhiteSpace s)))"

text \<open>\<^verbatim>\<open>s.startsWith(p)\<close>\<close>

definition startsWith :: "jsstring \<Rightarrow> jsstring \<Rightarrow> bool" where
  "startsWith s p \<longleftrightarrow> take (length p) s = p"

text \<open>
  \<^verbatim>\<open>s.toLowerCase()\<close> on a string whose code units are all ASCII or white space maps
  the letters A to Z and leaves every other code unit alone; \<open>isPlainUnit\<close> is the test
  for such a code unit. On any other string the result follows the Unicode case
  mapping, which is taken from the environment (see \<open>toLowerCase\<close> below).
\<close>

definition toLowerCase_unit :: "nat \<Rightarrow> nat" where
  "toLowerCase_unit c = (if 65 \<le> c \<and> c \<le> 90 then c + 32 else c)"

definition isPlainUnit :: "nat \<Rightarrow> bool" where
  "isPlainUnit c \<longleftrightarrow> c < 128 \<or> isWhiteSpace c"

text \<open>
  \<^verbatim>\<open>s.replace(/\s+/g, '-')\<close>: every maximal run of white space becomes one hyphen
  (code unit 45).
\<close>

function replace_ws :: "jsstring \<Rightarrow> jsstring" where
  "replace_ws [] = []"
| "replace_ws (c # cs) =
     (if isWhiteSpace c then 45 # replace_ws (dropWhile isWhiteSpace cs)
      else c # replace_ws cs)"
  by pat_completeness auto
termination
  by (relation "measure length") (auto simp: length_dropWhile_le less_Suc_eq_le)

subsection \<open>Numbers\<close>

text \<open>
  A \<^verbatim>\<open>number\<close> is an IEEE 754 double. A finite double is given by its exact value, a
  rational; the two zeros are not told apart (no comparison of the server does). A
  number that comes out of \<^verbatim>\<open>JSON.parse\<close> is finite or, for a literal that overflows
  such as \<^verbatim>\<open>1e999\<close>, infinite; it is never NaN, and the only arithmetic of the server,
  the product with the positive constant \<^verbatim>\<open>LAMPORTS_PER_SOL\<close>, yields no NaN either.
\<close>

datatype number = Finite rat | PosInfinity | NegInfinity

text \<open>\<^verbatim>\<open>a <= b\<close>, \<^verbatim>\<open>a < b\<close> and \<^verbatim>\<open>a > b\<close>\<close>

fun num_le :: "number \<Rightarrow> number \<Rightarrow> bool" where
  "num_le (Finite a) (Finite b) = (a \<le> b)"
| "num_le NegInfinity b = True"
| "num_le (Finite a) PosInfinity = True"
| "num_le PosInfinity PosInfinity = True"
| "num_le (Finite a) NegInfinity = False"
| "num_le PosInfinity (Finite b) = False"
| "num_le PosInfinity NegInfinity = False"

fun num_less :: "number \<Rightarrow> number \<Rightarrow> bool" where
  "num_less (Finite a) (Finite b) = (a < b)"
| "num_less PosInfinity b = False"
| "num_less (Finite a) NegInfinity = False"
| "num_less NegInfinity NegInfinity = False"
| "num_less NegInfinity (Finite b) = True"
| "num_less NegInfinity PosInfinity = True"
| "num_less (Finite a) PosInfinity = True"

definition num_gr :: "number \<Rightarrow> number \<Rightarrow> bool" where
  "num_gr a b = num_less b a"

text \<open>
  Rounding a rational to the nearest double, ties to even, as every IEEE operation does
  with its exact result. \<open>ilog2 q\<close> is the integer \<open>E\<close> with \<open>2^E \<le> q < 2^(E+1)\<close> for a
  positive \<open>q\<close>; a double near \<open>q\<close> is a multiple of \<open>2^(E - 52)\<close>, or of \<open>2^(-1074)\<close> in
  the subnormal range; a result of \<open>2^1024\<close> or more overflows to an infinity.
\<close>

definition pow2 :: "int \<Rightarrow> rat" where
  "pow2 e = (if 0 \<le> e then 2 ^ nat e else 1 / 2 ^ nat (- e))"

definition ilog2 :: "rat \<Rightarrow> int" where
  "ilog2 q =
     (let n = fst (quotient_of q); d = snd (quotient_of q); t = bitlen n - bitlen d
      in if of_int d * pow2 t \<le> (of_int n :: rat) then t else t - 1)"

definition round_half_even :: "rat \<Rightarrow> int" where
  "round_half_even x =
     (let f = \<lfloor>x\<rfloor>; r = x - of_int f
      in if r < 1 / 2 then f else if 1 / 2 < r then f + 1
         else if even f then f else f + 1)"

definition round_double :: "rat \<Rightarrow> number" where
  "round_double q =
     (if q = 0 then Finite 0
      else let e = max (ilog2 \<bar>q\<bar> - 52) (- 1074);
               r = of_int (round_half_even (\<bar>q\<bar> / pow2 e)) * pow2 e
           in if 2 ^ 1024 \<le> r then (if 0 < q then PosInfinity else NegInfinity)
              else Finite (sgn q * r))"

text \<open>\<^verbatim>\<open>LAMPORTS_PER_SOL\<close> of \<^verbatim>\<open>@solana/web3.js\<close> is the number 1000000000.\<close>

definition LAMPORTS_PER_SOL :: rat where
  "LAMPORTS_PER_SOL = 1000000000"

text \<open>\<^verbatim>\<open>x * LAMPORTS_PER_SOL\<close>\<close>

fun times_LAMPORTS_PER_SOL :: "number \<Rightarrow> number" where
  "times_LAMPORTS_PER_SOL (Finite a) = round_double (a * LAMPORTS_PER_SOL)"
| "times_LAMPORTS_PER_SOL PosInfinity = PosInfinity"
| "times_LAMPORTS_PER_SOL NegInfinity = NegInfinity"



section \<open>Data model\<close>

text \<open>
  \<^verbatim>\<open>interface BlinkRequest\<close> and \<^verbatim>\<open>interface BlinkData extends Omit<BlinkRequest,
  'coverImage'>\<close>: the shared fields are a record of their own, which both extend. The
  optional \<^verbatim>\<open>coverImage?: string\<close> of a request is \<open>None\<close> when the field is absent.
\<close>

record BlinkFields =
  channelName :: jsstring
  description :: jsstring
  fee :: number
  publicKey :: jsstring
  telegramLink :: jsstring

record BlinkRequest = BlinkFields +
  coverImage_opt :: "jsstring option"

record BlinkData = BlinkFields +
  route :: jsstring
  createdAt :: jsstring
  link :: jsstring
  coverImage :: jsstring

record StorageData =
  blinks :: "BlinkData list"

text \<open>
  The file \<^verbatim>\<open>data.json\<close>. It is missing until the first write; it holds the JSON text
  of a \<^verbatim>\<open>StorageData\<close> (what \<^verbatim>\<open>writeData\<close> writes, and \<^verbatim>\<open>JSON.parse\<close> reads back);
  or it cannot be read (\<^verbatim>\<open>fs.readFile\<close> rejects, for a permission error say); or its
  text is not JSON (\<^verbatim>\<open>JSON.parse\<close> throws), as after a write that stopped half way.
\<close>

datatype data_file = Missing | Json StorageData | Denied | Corrupt

section \<open>Environment\<close>

text \<open>
  What the server takes from its libraries and from the outside world.
  \<^item> \<^verbatim>\<open>new PublicKey(s)\<close> of \<^verbatim>\<open>@solana/web3.js\<close> throws or builds a key (its 32 bytes);
    \<^verbatim>\<open>key.toString()\<close> prints a key.
  \<^item> \<^verbatim>\<open>s.toLowerCase()\<close> for a string with a code unit that is neither ASCII nor
    white space.
  \<^item> \<^verbatim>\<open>new URL(s)\<close> throws or parses a URL, of which only \<^verbatim>\<open>hostname\<close> is read.
  \<^item> \<^verbatim>\<open>new Date().toISOString()\<close> and \<^verbatim>\<open>process.env.BASE_URL\<close>.
  \<^item> \<^verbatim>\<open>fs.writeFile\<close> succeeds, or rejects and leaves some file behind: the old one
    when the file could not be opened, a truncated one when the write stopped later.
  \<^item> \<^verbatim>\<open>SystemProgram.transfer\<close> encodes its parameters as an instruction (its bytes), or
    throws.
  \<^item> The ledger calls \<^verbatim>\<open>getBalance\<close> and \<^verbatim>\<open>getLatestBlockhash\<close> and the helper
    \<^verbatim>\<open>createPostResponse\<close> of \<^verbatim>\<open>@solana/actions\<close> return or throw.
  A thrown value is an \<^verbatim>\<open>Error\<close> with its message, or something else.
\<close>

type_synonym PublicKey = "nat list"

datatype thrown = Error_instance jsstring | Other_value

datatype write_outcome = Written | Write_failed data_file

record TransferParams =
  fromPubkey :: PublicKey
  toPubkey :: PublicKey
  lamports :: number

type_synonym TransactionInstruction = "nat list"

record Transaction =
  feePayer :: PublicKey
  recentBlockhash :: jsstring
  instructions :: "TransactionInstruction list"

record PostFields =
  transaction :: Transaction
  message :: jsstring

record env =
  PublicKey_new :: "jsstring \<Rightarrow> thrown + PublicKey"
  PublicKey_toString :: "PublicKey \<Rightarrow> jsstring"
  String_toLowerCase :: "jsstring \<Rightarrow> jsstring"
  URL_hostname :: "jsstring \<Rightarrow> jsstring option"
  Date_toISOString :: jsstring
  BASE_URL :: "jsstring option"
  fs_writeFile :: write_outcome
  SystemProgram_transfer :: "TransferParams \<Rightarrow> thrown + TransactionInstruction"
  getBalance :: "PublicKey \<Rightarrow> thrown + number"
  getLatestBlockhash :: "thrown + jsstring"
  createPostResponse :: "PostFields \<Rightarrow> thrown + jsstring"

section \<open>Responses\<close>

text \<open>
  The \<^verbatim>\<open>error\<close> strings of the server, and the bodies it sends. \<open>Message m\<close> is the
  body \<^verbatim>\<open>{ error: error.message }\<close> built from a caught \<^verbatim>\<open>Error\<close>.
\<close>

datatype error =
    Invalid_channel_name
  | Description_must_be_between_10_and_1000_characters
  | Fee_must_be_between_0_and_1000
  | Public_key_is_required
  | Invalid_cover_image_URL
  | Invalid_Telegram_link
  | Invalid_public_key_format
  | Error_accessing_storage
  | Channel_name_already_exists
  | Error_saving_data
  | Channel_not_found
  | Account_is_required
  | Invalid_account_public_key
  | Insufficient_balance
  | Error_checking_balance
  | Internal_server_error
  | Message jsstring

datatype summary = Summary jsstring jsstring number jsstring jsstring

datatype body =
    Error error
  | Channel_created jsstring jsstring
  | ActionGetResponse jsstring jsstring jsstring jsstring
  | ActionPostResponse jsstring
  | Channels "summary list"

text \<open>\<^verbatim>\<open>res.status(n).json(b)\<close>; \<^verbatim>\<open>res.json(b)\<close> sends status 200.\<close>

datatype response = Status nat body

section \<open>Data storage functions\<close>

text \<open>
  \<^verbatim>\<open>readData\<close>: the \<^verbatim>\<open>catch\<close> turns every failure into the empty collection, so the
  function never throws; the result type keeps the error case that its callers handle.
\<close>

definition readData :: "data_file \<Rightarrow> thrown + StorageData" where
  "readData f = (case f of Json d \<Rightarrow> Inr d | _ \<Rightarrow> Inr \<lparr>blinks = []\<rparr>)"

text \<open>\<^verbatim>\<open>writeData\<close>: the result and the file afterwards.\<close>

definition writeData :: "env \<Rightarrow> StorageData \<Rightarrow> (thrown + unit) \<times> data_file" where
  "writeData env d =
     (case fs_writeFile env of
        Written \<Rightarrow> (Inr (), Json d)
      | Write_failed f \<Rightarrow> (Inl (Error_instance []), f))"

section \<open>Validation helpers\<close>

definition isNameUnit :: "nat \<Rightarrow> bool" where
  "isNameUnit c \<longleftrightarrow>
     (97 \<le> c \<and> c \<le> 122) \<or> (65 \<le> c \<and> c \<le> 90) \<or> (48 \<le> c \<and> c \<le> 57) \<or>
     c = 45 \<or> c = 95 \<or> isWhiteSpace c"

text \<open>\<^verbatim>\<open>/^[a-zA-Z0-9-_\s]{3,50}$/.test(name)\<close>\<close>

definition validateChannelName :: "jsstring \<Rightarrow> bool" where
  "validateChannelName name \<longleftrightarrow>
     3 \<le> length name \<and> length name \<le> 50 \<and> list_all isNameUnit name"

definition isValidUrl :: "env \<Rightarrow> jsstring \<Rightarrow> bool" where
  "isValidUrl env url =
     (case URL_hostname env url of
        None \<Rightarrow> False
      | Some _ \<Rightarrow> startsWith url (str ''http://'') \<or> startsWith url (str ''https://''))"

definition isValidTelegramLink :: "env \<Rightarrow> jsstring \<Rightarrow> bool" where
  "isValidTelegramLink env url =
     (case URL_hostname env url of
        None \<Rightarrow> False
      | Some h \<Rightarrow> h = str ''t.me'' \<or> h = str ''telegram.me'')"

section \<open>Route derivation\<close>

text \<open>
  The expression \<^verbatim>\<open>`/api/${channelName.toLowerCase().replace(/\s+/g, '-')}`\<close>, which
  the three handlers of a channel share.
\<close>

definition toLowerCase :: "env \<Rightarrow> jsstring \<Rightarrow> jsstring" where
  "toLowerCase env s =
     (if list_all isPlainUnit s then map toLowerCase_unit s else String_toLowerCase env s)"

definition deriveRoute :: "env \<Rightarrow> jsstring \<Rightarrow> jsstring" where
  "deriveRoute env name = str ''/api/'' @ replace_ws (toLowerCase env name)"

text \<open>\<^verbatim>\<open>a || b\<close> on an optional string: absent and empty strings are falsy.\<close>

definition or_else :: "jsstring option \<Rightarrow> jsstring \<Rightarrow> jsstring" where
  "or_else a b = (case a of None \<Rightarrow> b | Some s \<Rightarrow> if s = [] then b else s)"


section \<open>Handlers\<close>

subsection \<open>\<^verbatim>\<open>app.post('/api/blink/create')\<close>\<close>

text \<open>
  The handler takes the typed body of the request and the file, and returns the response
  and the file afterwards. The checks come in the order of the source.
\<close>

definition newBlink :: "env \<Rightarrow> BlinkRequest \<Rightarrow> jsstring \<Rightarrow> PublicKey \<Rightarrow> BlinkData" where
  "newBlink env req r pubKey =
     \<lparr> channelName = channelName req,
       description = description req,
       fee = fee req,
       publicKey = PublicKey_toString env pubKey,
       telegramLink = telegramLink req,
       route = r,
       createdAt = Date_toISOString env,
       link = or_else (BASE_URL env) (str ''https://blink-back.onrender.com'') @ r,
       coverImage = or_else (coverImage_opt req) (str ''https://example.com/default-icon.png'') \<rparr>"

definition post_blink_create :: "env \<Rightarrow> BlinkRequest \<Rightarrow> data_file \<Rightarrow> response \<times> data_file" where
  "post_blink_create env req disk =
     (if \<not> validateChannelName (channelName req) then
        (Status 400 (Error Invalid_channel_name), disk)
      else if length (trim (description req)) < 10 \<or> 1000 < length (description req) then
        (Status 400 (Error Description_must_be_between_10_and_1000_characters), disk)
      else if num_le (fee req) (Finite 0) \<or> num_gr (fee req) (Finite 1000) then
        (Status 400 (Error Fee_must_be_between_0_and_1000), disk)
      else if trim (publicKey req) = [] then
        (Status 400 (Error Public_key_is_required), disk)
      else if (case coverImage_opt req of
                 None \<Rightarrow> False
               | Some c \<Rightarrow> c \<noteq> [] \<and> \<not> isValidUrl env c) then
        (Status 400 (Error Invalid_cover_image_URL), disk)
      else if \<not> isValidTelegramLink env (telegramLink req) then
        (Status 400 (Error Invalid_Telegram_link), disk)
      else
        (case PublicKey_new env (publicKey req) of
           Inl _ \<Rightarrow> (Status 400 (Error Invalid_public_key_format), disk)
         | Inr pubKey \<Rightarrow>
             (let r = deriveRoute env (channelName req) in
              case readData disk of
                Inl _ \<Rightarrow> (Status 500 (Error Error_accessing_storage), disk)
              | Inr data \<Rightarrow>
                  if list_ex (\<lambda>b. route b = r) (blinks data) then
                    (Status 400 (Error Channel_name_already_exists), disk)
                  else
                    (let b = newBlink env req r pubKey in
                     case writeData env (data\<lparr>blinks := blinks data @ [b]\<rparr>) of
                       (Inl _, disk') \<Rightarrow> (Status 500 (Error Error_saving_data), disk')
                     | (Inr _, disk') \<Rightarrow>
                         (Status 201 (Channel_created r (channelName b)), disk')))))"

subsection \<open>\<^verbatim>\<open>app.get('/api/:channelName')\<close>\<close>

text \<open>\<^verbatim>\<open>data.blinks.find(b => b.route === route)\<close> for the route of a name.\<close>

definition findBlink :: "env \<Rightarrow> jsstring \<Rightarrow> StorageData \<Rightarrow> BlinkData option" where
  "findBlink env name data = find (\<lambda>b. route b = deriveRoute env name) (blinks data)"

text \<open>
  What the \<^verbatim>\<open>catch\<close> of a handler does with a thrown value when it calls
  \<^verbatim>\<open>next(error)\<close>: the error handler answers 500.
\<close>

definition errorHandler :: "thrown \<Rightarrow> response" where
  "errorHandler t = Status 500 (Error Internal_server_error)"

definition get_channel :: "env \<Rightarrow> jsstring \<Rightarrow> data_file \<Rightarrow> response" where
  "get_channel env name disk =
     (case readData disk of
        Inl t \<Rightarrow> errorHandler t
      | Inr data \<Rightarrow>
          (case findBlink env name data of
             None \<Rightarrow> Status 404 (Error Channel_not_found)
           | Some blink \<Rightarrow>
               Status 200 (ActionGetResponse (coverImage blink) (str ''Join our Telegram channel'')
                 (channelName blink) (description blink))))"

subsection \<open>\<^verbatim>\<open>app.post('/api/:channelName')\<close>\<close>

text \<open>
  The \<^verbatim>\<open>catch\<close> of this handler: an \<^verbatim>\<open>Error\<close> is answered with status 400 and its
  message, anything else goes to the error handler.
\<close>

definition post_catch :: "thrown \<Rightarrow> response" where
  "post_catch t =
     (case t of
        Error_instance m \<Rightarrow> Status 400 (Error (Message m))
      | Other_value \<Rightarrow> errorHandler t)"

text \<open>The argument of \<^verbatim>\<open>SystemProgram.transfer\<close>.\<close>

definition transferParams :: "BlinkData \<Rightarrow> PublicKey \<Rightarrow> PublicKey \<Rightarrow> TransferParams" where
  "transferParams blink accountPubKey recipientPubKey =
     \<lparr> fromPubkey = accountPubKey,
       toPubkey = recipientPubKey,
       lamports = times_LAMPORTS_PER_SOL (fee blink) \<rparr>"

definition postMessage :: "BlinkData \<Rightarrow> jsstring" where
  "postMessage blink =
     str ''Thanks for joining! After payment, you can access the channel at: '' @ link blink
       @ str '' (Telegram: '' @ telegramLink blink @ str '')''"

text \<open>
  The \<^verbatim>\<open>account\<close> of the body is \<open>None\<close> when absent; absent and empty are falsy.
\<close>

definition post_channel :: "env \<Rightarrow> jsstring \<Rightarrow> jsstring option \<Rightarrow> data_file \<Rightarrow> response" where
  "post_channel env name account disk =
     (case account of
        None \<Rightarrow> Status 400 (Error Account_is_required)
      | Some a \<Rightarrow>
       (if a = [] then Status 400 (Error Account_is_required)
        else
       (case PublicKey_new env a of
          Inl _ \<Rightarrow> Status 400 (Error Invalid_account_public_key)
        | Inr accountPubKey \<Rightarrow>
       (case readData disk of
          Inl t \<Rightarrow> post_catch t
        | Inr data \<Rightarrow>
       (case findBlink env name data of
          None \<Rightarrow> Status 404 (Error Channel_not_found)
        | Some blink \<Rightarrow>
       (case PublicKey_new env (publicKey blink) of
          Inl t \<Rightarrow> post_catch t
        | Inr recipientPubKey \<Rightarrow>
       (case getBalance env accountPubKey of
          Inl _ \<Rightarrow> Status 500 (Error Error_checking_balance)
        | Inr balance \<Rightarrow>
       (if num_less balance (times_LAMPORTS_PER_SOL (fee blink)) then
          Status 400 (Error Insufficient_balance)
        else
       (case SystemProgram_transfer env (transferParams blink accountPubKey recipientPubKey) of
          Inl t \<Rightarrow> post_catch t
        | Inr transferSolInstruction \<Rightarrow>
       (case getLatestBlockhash env of
          Inl t \<Rightarrow> post_catch t
        | Inr blockhash \<Rightarrow>
       (case createPostResponse env
               \<lparr> transaction =
                   \<lparr> feePayer = accountPubKey, recentBlockhash = blockhash,
                     instructions = [transferSolInstruction] \<rparr>,
                 message = postMessage blink \<rparr> of
          Inl t \<Rightarrow> post_catch t
        | Inr postResponse \<Rightarrow> Status 200 (ActionPostResponse postResponse))))))))))))"

subsection \<open>\<^verbatim>\<open>app.get('/api/channels/list')\<close>\<close>

definition get_channels_list :: "data_file \<Rightarrow> response" where
  "get_channels_list disk =
     (case readData disk of
        Inl t \<Rightarrow> errorHandler t
      | Inr data \<Rightarrow>
          Status 200 (Channels
            (map (\<lambda>b. Summary (channelName b) (description b) (fee b) (route b) (createdAt b))
               (blinks data))))"


section \<open>Specification vocabulary\<close>

text \<open>
  The checks that \<^verbatim>\<open>app.post('/api/blink/create')\<close> makes before it reads the file,
  each with the error it answers, in the order of the source: the six checks under
  \<^verbatim>\<open>// Input validation\<close>, then the construction of the key under
  \<^verbatim>\<open>// Validate public key\<close>. \<open>first_failure\<close> is the error of the first check that
  fails; a request is valid when none does.
\<close>

definition validation_checks :: "env \<Rightarrow> BlinkRequest \<Rightarrow> (bool \<times> error) list" where
  "validation_checks env req =
     [(\<not> validateChannelName (channelName req), Invalid_channel_name),
      (length (trim (description req)) < 10 \<or> 1000 < length (description req),
         Description_must_be_between_10_and_1000_characters),
      (num_le (fee req) (Finite 0) \<or> num_gr (fee req) (Finite 1000),
         Fee_must_be_between_0_and_1000),
      (trim (publicKey req) = [], Public_key_is_required),
      ((case coverImage_opt req of None \<Rightarrow> False | Some c \<Rightarrow> c \<noteq> [] \<and> \<not> isValidUrl env c),
         Invalid_cover_image_URL),
      (\<not> isValidTelegramLink env (telegramLink req), Invalid_Telegram_link),
      (isl (PublicKey_new env (publicKey req)), Invalid_public_key_format)]"

definition first_failure :: "env \<Rightarrow> BlinkRequest \<Rightarrow> error option" where
  "first_failure env req = map_option snd (find fst (validation_checks env req))"

definition valid_request :: "env \<Rightarrow> BlinkRequest \<Rightarrow> bool" where
  "valid_request env req \<longleftrightarrow> first_failure env req = None"

text \<open>
  Two names that differ only in the case of their letters and in their runs of white
  space: unit by unit, a run of white space on one side answers a run on the other,
  and any other code unit answers one with the same lower case.
\<close>

function same_name :: "jsstring \<Rightarrow> jsstring \<Rightarrow> bool" where
  "same_name [] [] = True"
| "same_name (c # xs) [] = False"
| "same_name [] (d # ys) = False"
| "same_name (c # xs) (d # ys) =
     (if isWhiteSpace c \<and> isWhiteSpace d then
        same_name (dropWhile isWhiteSpace xs) (dropWhile isWhiteSpace ys)
      else if \<not> isWhiteSpace c \<and> \<not> isWhiteSpace d then
        toLowerCase_unit c = toLowerCase_unit d \<and> same_name xs ys
      else False)"
  by pat_completeness auto
termination
  by (relation "measure (\<lambda>(a, b). length a)") (auto simp: length_dropWhile_le less_Suc_eq_le)

text \<open>A store with the \<^verbatim>\<open>publicKey\<close> of every record blanked.\<close>

definition without_publicKey :: "StorageData \<Rightarrow> BlinkData list" where
  "without_publicKey d = map (\<lambda>b. b\<lparr>publicKey := []\<rparr>) (blinks d)"

text \<open>
  The five fields of a record that a summary is to hold: name, description, fee, route
  and time of creation.
\<close>

definition public_fields :: "BlinkData \<Rightarrow> jsstring \<times> jsstring \<times> number \<times> jsstring \<times> jsstring" where
  "public_fields b = (channelName b, description b, fee b, route b, createdAt b)"

section \<open>A test environment\<close>

text \<open>
  A small environment for examples. Its key constructor knows two addresses, the base58
  text of 32 zero bytes and of 31 zero bytes followed by 1, and rejects every other
  string; its URL parser knows one Telegram link and one image; beyond ASCII
  its lower case knows the Kelvin sign.
\<close>

definition key_1 :: jsstring where
  "key_1 = str ''11111111111111111111111111111111''"

definition key_2 :: jsstring where
  "key_2 = str ''11111111111111111111111111111112''"

definition test_env :: env where
  "test_env =
     \<lparr> PublicKey_new = (\<lambda>s. if s = key_1 then Inr (replicate 32 0)
                            else if s = key_2 then Inr (replicate 31 0 @ [1])
                            else Inl (Error_instance (str ''Invalid public key input''))),
       PublicKey_toString = (\<lambda>k. if k = replicate 32 0 then key_1 else key_2),
       String_toLowerCase = map (\<lambda>c. if c = 8490 then 107 else toLowerCase_unit c),
       URL_hostname = (\<lambda>s. if s = str ''https://t.me/testshow'' then Some (str ''t.me'')
                           else if s = str ''https://example.com/a.png'' then Some (str ''example.com'')
                           else None),
       Date_toISOString = str ''2024-01-01T00:00:00.000Z'',
       BASE_URL = None,
       fs_writeFile = Written,
       SystemProgram_transfer = (\<lambda>p. Inr [2, 0, 0, 0]),
       getBalance = (\<lambda>k. Inr (Finite 5000000000)),
       getLatestBlockhash = Inr (str ''EkSnNWid2cvwEVnVx9aBqawnmiCNiDgp3gUdkDPTKN1N''),
       createPostResponse = (\<lambda>f. Inr (message f)) \<rparr>"

text \<open>The registration request of the end-to-end example, with a fee of 0.5.\<close>

definition test_request :: BlinkRequest where
  "test_request =
     \<lparr> channelName = str ''Test Show'',
       description = str ''Support my show please'',
       fee = Finite (1 / 2),
       publicKey = key_1,
       telegramLink = str ''https://t.me/testshow'',
       coverImage_opt = None \<rparr>"

text \<open>The stored record of that request, and the file that holds it alone.\<close>

definition test_blink :: BlinkData where
  "test_blink = newBlink test_env test_request (str ''/api/test-show'') (replicate 32 0)"

definition test_store :: data_file where
  "test_store = Json \<lparr>blinks = [test_blink]\<rparr>"

text \<open>Requests that differ from the test request in one or two fields.\<close>

definition test_request_2 :: BlinkRequest where
  "test_request_2 = test_request\<lparr>channelName := str ''TEST   show''\<rparr>"

definition other_request :: BlinkRequest where
  "other_request = test_request\<lparr>channelName := str ''Other Show''\<rparr>"

definition blank_request :: BlinkRequest where
  "blank_request = test_request\<lparr>channelName := str ''   ''\<rparr>"

definition blank_blink :: BlinkData where
  "blank_blink = newBlink test_env blank_request (str ''/api/-'') (replicate 32 0)"

definition bad_key_and_image :: BlinkRequest where
  "bad_key_and_image =
     test_request\<lparr>publicKey := str ''not-a-key'', coverImage_opt := Some (str ''not a url'')\<rparr>"

definition padded_description :: jsstring where
  "padded_description = replicate 1000 97 @ [32]"



text \<open>
  An environment whose key constructor also accepts a text that is not the print of its
  key: the print of 32 zero bytes followed by the code unit 256, read as the same 32
  zero bytes. A base58 decoder whose digit table has 256 entries and which looks a
  larger code unit up in it finds no digit there and adds nothing to the number.
\<close>

definition lenient_key :: jsstring where
  "lenient_key = key_1 @ [256]"

definition lenient_env :: env where
  "lenient_env =
     test_env\<lparr>PublicKey_new :=
       (\<lambda>s. if s = lenient_key then Inr (replicate 32 0) else PublicKey_new test_env s)\<rparr>"

definition lenient_request :: BlinkRequest where
  "lenient_request = test_request\<lparr>publicKey := lenient_key\<rparr>"

definition lenient_blink :: BlinkData where
  "lenient_blink = newBlink lenient_env lenient_request (str ''/api/test-show'') (replicate 32 0)"

text \<open>A record that agrees with the test record in the five public fields only.\<close>

definition test_blink_private :: BlinkData where
  "test_blink_private =
     test_blink\<lparr>publicKey := key_2, telegramLink := str ''https://t.me/other'',
       link := str ''https://example.com/api/test-show'',
       coverImage := str ''https://example.com/a.png''\<rparr>"

text \<open>
  Environments in which one call fails: \<^verbatim>\<open>fs.writeFile\<close> rejects after it has truncated
  the file, or before it has touched a file that holds the test store; the ledger node
  cannot be reached for the blockhash, or for the balance.
\<close>

definition write_truncates :: env where
  "write_truncates = test_env\<lparr>fs_writeFile := Write_failed Corrupt\<rparr>"

definition write_refused :: env where
  "write_refused = test_env\<lparr>fs_writeFile := Write_failed test_store\<rparr>"

definition ledger_down :: env where
  "ledger_down = test_env\<lparr>getLatestBlockhash := Inl (Error_instance (str ''fetch failed''))\<rparr>"

definition balance_down :: env where
  "balance_down = test_env\<lparr>getBalance := (\<lambda>k. Inl (Error_instance (str ''fetch failed'')))\<rparr>"

section \<open>Facts about strings\<close>


lemma ws_not_upper: "isWhiteSpace c \<Longrightarrow> \<not> (65 \<le> c \<and> c \<le> 90)"
  unfolding isWhiteSpace_def by arith

lemma upper_not_ws: "65 \<le> c \<Longrightarrow> c \<le> 90 \<Longrightarrow> \<not> isWhiteSpace (c + 32) \<and> \<not> isWhiteSpace c"
  unfolding isWhiteSpace_def by arith

lemma toLowerCase_unit_ws [simp]: "isWhiteSpace (toLowerCase_unit c) = isWhiteSpace c"
  using upper_not_ws[of c] by (simp add: toLowerCase_unit_def)

lemma toLowerCase_unit_of_ws: "isWhiteSpace c \<Longrightarrow> toLowerCase_unit c = c"
  using ws_not_upper[of c] by (simp add: toLowerCase_unit_def)

lemma dropWhile_all: "list_all P xs \<Longrightarrow> dropWhile P xs = []"
  by (induction xs) simp_all

lemma replace_ws_all_ws: "list_all isWhiteSpace s \<Longrightarrow> s \<noteq> [] \<Longrightarrow> replace_ws s = [45]"
  by (cases s) (simp_all add: dropWhile_all)

lemma isNameUnit_ws: "isWhiteSpace c \<Longrightarrow> isNameUnit c"
  by (simp add: isNameUnit_def)

lemma isNameUnit_plain: "isNameUnit c \<Longrightarrow> isPlainUnit c"
  unfolding isNameUnit_def isPlainUnit_def by arith

lemma list_all_imp: "list_all P xs \<Longrightarrow> (\<And>x. P x \<Longrightarrow> Q x) \<Longrightarrow> list_all Q xs"
  by (induction xs) simp_all

lemma toLowerCase_valid:
  "validateChannelName name \<Longrightarrow> toLowerCase env name = map toLowerCase_unit name"
proof -
  assume "validateChannelName name"
  then have "list_all isNameUnit name" by (simp add: validateChannelName_def)
  then have "list_all isPlainUnit name" by (rule list_all_imp) (rule isNameUnit_plain)
  then show ?thesis by (simp add: toLowerCase_def)
qed

lemma deriveRoute_valid:
  "validateChannelName name \<Longrightarrow>
     deriveRoute env name = str ''/api/'' @ replace_ws (map toLowerCase_unit name)"
  by (simp add: deriveRoute_def toLowerCase_valid)

lemma lower_all_ws: "list_all isWhiteSpace s \<Longrightarrow> map toLowerCase_unit s = s"
  by (induction s) (simp_all add: toLowerCase_unit_of_ws)

lemma lower_dropWhile:
  "map toLowerCase_unit (dropWhile isWhiteSpace xs) =
     dropWhile isWhiteSpace (map toLowerCase_unit xs)"
  by (induction xs) simp_all

lemma same_name_replace:
  "same_name a b \<Longrightarrow>
     replace_ws (map toLowerCase_unit a) = replace_ws (map toLowerCase_unit b)"
proof (induction a b rule: same_name.induct)
  case (4 c xs d ys)
  show ?case
  proof (cases "isWhiteSpace c")
    case True
    with "4.prems" have d: "isWhiteSpace d"
      and s: "same_name (dropWhile isWhiteSpace xs) (dropWhile isWhiteSpace ys)"
      by (simp_all split: if_splits)
    from "4.IH"(1) True d s
    have "replace_ws (map toLowerCase_unit (dropWhile isWhiteSpace xs)) =
          replace_ws (map toLowerCase_unit (dropWhile isWhiteSpace ys))" by simp
    then show ?thesis using True d
      by (simp add: lower_dropWhile)
  next
    case False
    with "4.prems" have d: "\<not> isWhiteSpace d"
      and l: "toLowerCase_unit c = toLowerCase_unit d" and s: "same_name xs ys"
      by (simp_all split: if_splits)
    from "4.IH"(2) False d s
    have "replace_ws (map toLowerCase_unit xs) = replace_ws (map toLowerCase_unit ys)"
      by simp
    then show ?thesis using False d l by simp
  qed
qed simp_all

section \<open>Facts about registration\<close>


lemma readData_total: "\<exists>d. readData f = Inr d"
  by (cases f) (simp_all add: readData_def)

lemma valid_requestD:
  assumes "valid_request env req"
  shows "validateChannelName (channelName req)"
    and "10 \<le> length (trim (description req))" and "length (description req) \<le> 1000"
    and "\<not> num_le (fee req) (Finite 0)" and "\<not> num_gr (fee req) (Finite 1000)"
    and "trim (publicKey req) \<noteq> []"
    and "\<not> (case coverImage_opt req of None \<Rightarrow> False | Some c \<Rightarrow> c \<noteq> [] \<and> \<not> isValidUrl env c)"
    and "isValidTelegramLink env (telegramLink req)"
    and "\<exists>k. PublicKey_new env (publicKey req) = Inr k"
  using assms
  unfolding valid_request_def first_failure_def validation_checks_def
  by (simp_all split: if_splits add: not_less isl_def) (metis sum.exhaust)

lemma create_valid:
  assumes v: "valid_request env req"
    and k: "PublicKey_new env (publicKey req) = Inr k"
    and d: "readData disk = Inr data"
  shows "post_blink_create env req disk =
     (if list_ex (\<lambda>b. route b = deriveRoute env (channelName req)) (blinks data) then
        (Status 400 (Error Channel_name_already_exists), disk)
      else case fs_writeFile env of
        Written \<Rightarrow>
          (Status 201 (Channel_created (deriveRoute env (channelName req)) (channelName req)),
           Json (data\<lparr>blinks := blinks data @ [newBlink env req (deriveRoute env (channelName req)) k]\<rparr>))
      | Write_failed f \<Rightarrow> (Status 500 (Error Error_saving_data), f))"
proof -
  note f = valid_requestD[OF v]
  show ?thesis
    unfolding post_blink_create_def
    using f(1-8) k d
    by (simp add: Let_def writeData_def newBlink_def not_less split: write_outcome.split)
qed

lemma create_invalid:
  assumes "first_failure env req = Some e"
  shows "post_blink_create env req disk = (Status 400 (Error e), disk)"
  using assms
  unfolding first_failure_def validation_checks_def post_blink_create_def
  by (auto split: if_splits sum.splits simp: isl_def)

lemma create_201D:
  assumes "post_blink_create env req disk = (Status 201 body, disk')"
  shows "valid_request env req \<and> fs_writeFile env = Written \<and>
     (\<exists>data k. readData disk = Inr data \<and> PublicKey_new env (publicKey req) = Inr k \<and>
        \<not> list_ex (\<lambda>b. route b = deriveRoute env (channelName req)) (blinks data) \<and>
        disk' = Json (data\<lparr>blinks := blinks data @ [newBlink env req (deriveRoute env (channelName req)) k]\<rparr>) \<and>
        body = Channel_created (deriveRoute env (channelName req)) (channelName req))"
proof (cases "first_failure env req")
  case (Some e)
  from create_invalid[OF Some, of disk] assms show ?thesis by simp
next
  case None
  then have v: "valid_request env req" by (simp add: valid_request_def)
  from valid_requestD(9)[OF v] obtain k where k: "PublicKey_new env (publicKey req) = Inr k" ..
  from readData_total obtain data where d: "readData disk = Inr data" ..
  from create_valid[OF v k d] assms v k d show ?thesis
    by (auto split: if_splits write_outcome.splits)
qed

lemma find_snoc_new: "\<not> list_ex P xs \<Longrightarrow> P b \<Longrightarrow> find P (xs @ [b]) = Some b"
  by (induction xs) simp_all

lemma create_duplicate:
  assumes "readData disk = Inr data"
    and "list_ex (\<lambda>b. route b = deriveRoute env (channelName req)) (blinks data)"
  shows "snd (post_blink_create env req disk) = disk \<and>
         (\<forall>b. fst (post_blink_create env req disk) \<noteq> Status 201 b)"
proof (cases "first_failure env req")
  case (Some e)
  from create_invalid[OF Some, of disk] show ?thesis by simp
next
  case None
  then have v: "valid_request env req" by (simp add: valid_request_def)
  from valid_requestD(9)[OF v] obtain k where k: "PublicKey_new env (publicKey req) = Inr k" ..
  from create_valid[OF v k assms(1)] assms(2) show ?thesis by simp
qed

section \<open>The test request\<close>

lemmas string_eval = str_def validateChannelName_def isNameUnit_def isWhiteSpace_def deriveRoute_def
  toLowerCase_def isPlainUnit_def toLowerCase_unit_def trim_def startsWith_def key_1_def key_2_def

lemma test_request_valid: "valid_request test_env test_request"
  by (simp add: valid_request_def first_failure_def validation_checks_def test_env_def
      test_request_def isValidTelegramLink_def num_gr_def string_eval)

lemma test_request_created:
  "post_blink_create test_env test_request Missing =
     (Status 201 (Channel_created (str ''/api/test-show'') (str ''Test Show'')),
      Json \<lparr>blinks = [newBlink test_env test_request (str ''/api/test-show'') (replicate 32 0)]\<rparr>)"
proof -
  have k: "PublicKey_new test_env (publicKey test_request) = Inr (replicate 32 0)"
    by (simp add: test_env_def test_request_def)
  have d: "readData Missing = Inr \<lparr>blinks = []\<rparr>" by (simp add: readData_def)
  have r: "deriveRoute test_env (channelName test_request) = str ''/api/test-show''"
    by (simp add: test_request_def string_eval)
  have w: "fs_writeFile test_env = Written" by (simp add: test_env_def)
  have n: "channelName test_request = str ''Test Show''" by (simp add: test_request_def)
  show ?thesis
    by (simp add: create_valid[OF test_request_valid k d] w n r[unfolded n])
qed

section \<open>Facts about numbers\<close>

lemma pow2_nonneg: "0 \<le> e \<Longrightarrow> pow2 e = 2 ^ nat e"
  by (simp add: pow2_def)

lemma pow2_pos: "0 < pow2 e"
  by (simp add: pow2_def)

lemma round_half_even_of_int: "round_half_even (of_int m) = m"
  by (simp add: round_half_even_def)

lemma ilog2_of_int:
  assumes "0 < k"
  shows "ilog2 (of_int k) = bitlen k - 1"
proof -
  have b: "2 ^ nat (bitlen k - 1) \<le> k" using bitlen_bounds[OF assms] by simp
  have p: "1 \<le> bitlen k" using assms bitlen_nonneg[of k] bitlen_eq_zero_iff[of k] by linarith
  have "(2::rat) ^ nat (bitlen k - 1) = of_int (2 ^ nat (bitlen k - 1))" by simp
  also have "\<dots> \<le> of_int k" using b by (simp only: of_int_le_iff)
  finally have "pow2 (bitlen k - 1) \<le> (of_int k :: rat)" using p by (simp add: pow2_nonneg)
  moreover have "bitlen (1::int) = 1" by (simp add: bitlen_alt_def)
  ultimately show ?thesis by (simp add: ilog2_def)
qed

lemma round_double_of_int:
  assumes "0 < k" "k < 2 ^ 53"
  shows "round_double (of_int k) = Finite (of_int k)"
proof -
  define E where "E = bitlen k - 1"
  have E0: "0 \<le> E" using assms(1) bitlen_nonneg[of k] bitlen_eq_zero_iff[of k] by (simp add: E_def)
  have "bitlen k \<le> 53" using assms by (simp add: bitlen_le_iff_power)
  then have E52: "E \<le> 52" by (simp add: E_def)
  have il: "ilog2 \<bar>of_int k\<bar> = E" using assms(1) ilog2_of_int[of k] by (simp add: E_def)
  have e: "max (E - 52) (- 1074) = E - 52" using E0 by simp
  have pe: "pow2 (E - 52) = 1 / 2 ^ nat (52 - E)"
  proof (cases "E = 52")
    case True then show ?thesis by (simp add: pow2_def)
  next
    case False
    with E52 have "E - 52 < 0" by simp
    then show ?thesis by (simp add: pow2_def)
  qed
  have q: "\<bar>of_int k :: rat\<bar> / pow2 (E - 52) = of_int (k * 2 ^ nat (52 - E))"
    using assms(1) by (simp add: pe)
  have r: "of_int (round_half_even (\<bar>of_int k :: rat\<bar> / pow2 (E - 52))) * pow2 (E - 52) = (of_int k :: rat)"
    unfolding q round_half_even_of_int by (simp add: pe)
  have "(of_int k :: rat) < of_int (2 ^ 53)" using assms(2) by (simp only: of_int_less_iff)
  also have "\<dots> \<le> 2 ^ 1024" by simp
  finally have small: "\<not> (2 ^ 1024 \<le> (of_int k :: rat))" by simp
  have nz: "(of_int k :: rat) \<noteq> 0" "sgn (of_int k :: rat) = 1" using assms(1) by simp_all
  show ?thesis
    unfolding round_double_def il e Let_def r using small nz by simp
qed

lemma half_sol: "times_LAMPORTS_PER_SOL (Finite (1 / 2)) = Finite 500000000"
proof -
  have "(1 / 2 :: rat) * LAMPORTS_PER_SOL = of_int 500000000" by (simp add: LAMPORTS_PER_SOL_def)
  moreover have "round_double (of_int 500000000) = Finite (of_int 500000000)"
    by (rule round_double_of_int) simp_all
  ultimately show ?thesis by (simp add: LAMPORTS_PER_SOL_def)
qed



declare times_LAMPORTS_PER_SOL.simps [simp del]

section \<open>Facts about the payment handler\<close>

lemma post_channel_steps:
  assumes "account = Some a" "a \<noteq> []" "PublicKey_new env a = Inr payer"
    "readData disk = Inr data" "findBlink env name data = Some blink"
    "PublicKey_new env (publicKey blink) = Inr owner"
    "getBalance env payer = Inr balance"
    "\<not> num_less balance (times_LAMPORTS_PER_SOL (fee blink))"
    "SystemProgram_transfer env (transferParams blink payer owner) = Inr ins"
  shows "post_channel env name account disk =
     (case getLatestBlockhash env of
        Inl t \<Rightarrow> post_catch t
      | Inr bh \<Rightarrow>
          (case createPostResponse env
                  \<lparr> transaction = \<lparr> feePayer = payer, recentBlockhash = bh, instructions = [ins] \<rparr>,
                    message = postMessage blink \<rparr> of
             Inl t \<Rightarrow> post_catch t
           | Inr p \<Rightarrow> Status 200 (ActionPostResponse p)))"
  using assms unfolding post_channel_def by simp



section \<open>Facts about the test data\<close>

lemma blank_request_created:
  "post_blink_create test_env blank_request Missing =
     (Status 201 (Channel_created (str ''/api/-'') (str ''   '')), Json \<lparr>blinks = [blank_blink]\<rparr>)"
proof -
  have v: "valid_request test_env blank_request"
    by (simp add: valid_request_def first_failure_def validation_checks_def test_env_def
        test_request_def blank_request_def isValidTelegramLink_def num_gr_def string_eval)
  have k: "PublicKey_new test_env (publicKey blank_request) = Inr (replicate 32 0)"
    by (simp add: test_env_def test_request_def blank_request_def)
  have d: "readData Missing = Inr \<lparr>blinks = []\<rparr>" by (simp add: readData_def)
  have n: "channelName blank_request = str ''   ''" by (simp add: blank_request_def)
  have r: "deriveRoute test_env (str ''   '') = str ''/api/-''" by (simp add: string_eval)
  have w: "fs_writeFile test_env = Written" by (simp add: test_env_def)
  show ?thesis
    by (simp add: create_valid[OF v k d] w n r blank_blink_def)
qed

lemma test_request_2_valid: "valid_request test_env test_request_2"
  by (simp add: valid_request_def first_failure_def validation_checks_def test_env_def
      test_request_def test_request_2_def isValidTelegramLink_def num_gr_def string_eval)

lemma test_store_read: "readData test_store = Inr \<lparr>blinks = [test_blink]\<rparr>"
  by (simp add: test_store_def readData_def)

lemma test_store_find: "findBlink env (str ''Test Show'') \<lparr>blinks = [test_blink]\<rparr> = Some test_blink"
  by (simp add: findBlink_def test_blink_def newBlink_def) (simp add: string_eval)

lemma test_blink_fields:
  "fee test_blink = Finite (1 / 2)" "publicKey test_blink = key_1"
  "route test_blink = str ''/api/test-show''"
  by (simp_all add: test_blink_def newBlink_def test_request_def test_env_def)



lemma other_request_valid: "valid_request test_env other_request"
  by (simp add: valid_request_def first_failure_def validation_checks_def test_env_def
      test_request_def other_request_def isValidTelegramLink_def num_gr_def string_eval)

lemma other_request_fresh:
  "\<not> list_ex (\<lambda>b. route b = deriveRoute env (channelName other_request)) (blinks \<lparr>blinks = [test_blink]\<rparr>)"
  by (simp add: test_blink_fields other_request_def) (simp add: string_eval)

lemma isValidUrl_write: "isValidUrl (env\<lparr>fs_writeFile := w\<rparr>) = isValidUrl env"
  by (rule ext) (simp add: isValidUrl_def)

lemma validation_checks_write:
  "validation_checks (env\<lparr>fs_writeFile := w\<rparr>) req = validation_checks env req"
  by (simp add: validation_checks_def isValidUrl_write isValidTelegramLink_def
      cong: option.case_cong)

lemma env_update_valid:
  "valid_request (env\<lparr>fs_writeFile := w\<rparr>) req = valid_request env req"
  by (simp add: valid_request_def first_failure_def validation_checks_write)

lemma trim_padded: "trim padded_description = replicate 1000 97"
proof -
  have n: "\<not> isWhiteSpace 97" by (simp add: isWhiteSpace_def)
  have w: "isWhiteSpace 32" by (simp add: isWhiteSpace_def)
  have "dropWhile isWhiteSpace (replicate 1000 97 @ [32]) = replicate 1000 97 @ [32]"
    using n by (simp add: dropWhile_append3)
  then show ?thesis using n w
    by (simp add: trim_def padded_description_def)
qed

lemma trim_letters: "trim (replicate n 97) = replicate n 97"
  by (simp add: trim_def isWhiteSpace_def)

section \<open>Resolving a channel after its registration\<close>

text \<open>
  C1, as amended. When \<^verbatim>\<open>app.post('/api/blink/create')\<close> answers 201, the file it
  leaves holds a record that the lookup of the handlers finds under the same channel
  name, in whatever environment the lookup runs. That record has the channel name and
  the fee of the request, and its \<^verbatim>\<open>publicKey\<close> is the text that \<^verbatim>\<open>toString\<close> gives for
  the key built from the requested one. The description handler answers 200 with the
  channel name as title.
\<close>

theorem resolve_after_register:
  assumes ok: "post_blink_create env req disk = (Status 201 body, disk')"
  shows "\<exists>data b k. readData disk' = Inr data \<and>
           findBlink env' (channelName req) data = Some b \<and>
           channelName b = channelName req \<and> fee b = fee req \<and>
           PublicKey_new env (publicKey req) = Inr k \<and>
           publicKey b = PublicKey_toString env k \<and>
           get_channel env' (channelName req) disk' =
             Status 200 (ActionGetResponse (coverImage b) (str ''Join our Telegram channel'')
               (channelName req) (description req))"
proof -
  from create_201D[OF ok] obtain data k where
    v: "valid_request env req" and
    d: "readData disk = Inr data" and k: "PublicKey_new env (publicKey req) = Inr k" and
    fresh: "\<not> list_ex (\<lambda>b. route b = deriveRoute env (channelName req)) (blinks data)" and
    disk': "disk' = Json (data\<lparr>blinks := blinks data @ [newBlink env req (deriveRoute env (channelName req)) k]\<rparr>)"
    by blast
  let ?b = "newBlink env req (deriveRoute env (channelName req)) k"
  have same: "deriveRoute env' (channelName req) = deriveRoute env (channelName req)"
    using valid_requestD(1)[OF v] by (simp add: deriveRoute_valid)
  have r: "route ?b = deriveRoute env (channelName req)" by (simp add: newBlink_def)
  have f: "findBlink env' (channelName req) (data\<lparr>blinks := blinks data @ [?b]\<rparr>) = Some ?b"
    unfolding findBlink_def same using find_snoc_new[OF fresh r] by simp
  have rd: "readData disk' = Inr (data\<lparr>blinks := blinks data @ [?b]\<rparr>)"
    by (simp add: disk' readData_def)
  have c: "channelName ?b = channelName req" "fee ?b = fee req" "description ?b = description req"
    by (simp_all add: newBlink_def)
  have p: "publicKey ?b = PublicKey_toString env k"
    by (simp add: newBlink_def)
  have "get_channel env' (channelName req) disk' =
      Status 200 (ActionGetResponse (coverImage ?b) (str ''Join our Telegram channel'')
        (channelName req) (description req))"
    by (simp add: get_channel_def rd f c)
  with f rd c p k show ?thesis by blast
qed

theorem resolve_after_register_witness:
  "post_blink_create test_env test_request Missing =
     (Status 201 (Channel_created (str ''/api/test-show'') (str ''Test Show'')), test_store) \<and>
   (\<exists>data b. readData test_store = Inr data \<and>
      findBlink test_env (str ''Test Show'') data = Some b \<and>
      channelName b = str ''Test Show'' \<and> fee b = Finite (1 / 2) \<and> publicKey b = key_1 \<and>
      get_channel test_env (str ''Test Show'') test_store =
        Status 200 (ActionGetResponse (coverImage b) (str ''Join our Telegram channel'')
          (str ''Test Show'') (str ''Support my show please'')))"
proof -
  have reg: "post_blink_create test_env test_request Missing =
     (Status 201 (Channel_created (str ''/api/test-show'') (str ''Test Show'')), test_store)"
    by (simp add: test_request_created test_store_def test_blink_def)
  from resolve_after_register[OF reg, of test_env] obtain data b k where
    h: "readData test_store = Inr data"
       "findBlink test_env (channelName test_request) data = Some b"
       "channelName b = channelName test_request" "fee b = fee test_request"
       "PublicKey_new test_env (publicKey test_request) = Inr k"
       "publicKey b = PublicKey_toString test_env k"
       "get_channel test_env (channelName test_request) test_store =
          Status 200 (ActionGetResponse (coverImage b) (str ''Join our Telegram channel'')
            (channelName test_request) (description test_request))"
    by blast
  from h(5) have "k = replicate 32 0" by (simp add: test_env_def test_request_def)
  with h(6) have "publicKey b = key_1" by (simp add: test_env_def)
  with h reg show ?thesis by (auto simp: test_request_def)
qed

text \<open>
  C1, as stated, fails: the stored \<^verbatim>\<open>publicKey\<close> is \<^verbatim>\<open>pubKey.toString()\<close>, not the text
  of the request. With a key constructor that accepts a text other than the print of
  its key, the registration answers 201 and the record found under the same name has a
  \<^verbatim>\<open>publicKey\<close> that differs from the one supplied.
\<close>

theorem stored_key_is_reprinted:
  "post_blink_create lenient_env lenient_request Missing =
     (Status 201 (Channel_created (str ''/api/test-show'') (str ''Test Show'')),
      Json \<lparr>blinks = [lenient_blink]\<rparr>) \<and>
   findBlink lenient_env (str ''Test Show'') \<lparr>blinks = [lenient_blink]\<rparr> = Some lenient_blink \<and>
   publicKey lenient_request = key_1 @ [256] \<and>
   publicKey lenient_blink = key_1 \<and>
   publicKey lenient_blink \<noteq> publicKey lenient_request"
proof -
  have v: "valid_request lenient_env lenient_request"
    by (simp add: valid_request_def first_failure_def validation_checks_def lenient_env_def
        lenient_request_def lenient_key_def test_env_def test_request_def
        isValidTelegramLink_def num_gr_def string_eval)
  have k: "PublicKey_new lenient_env (publicKey lenient_request) = Inr (replicate 32 0)"
    by (simp add: lenient_env_def lenient_request_def)
  have d: "readData Missing = Inr \<lparr>blinks = []\<rparr>" by (simp add: readData_def)
  have n: "channelName lenient_request = str ''Test Show''"
    by (simp add: lenient_request_def test_request_def)
  have r: "deriveRoute lenient_env (str ''Test Show'') = str ''/api/test-show''"
    by (simp add: string_eval)
  have w: "fs_writeFile lenient_env = Written" by (simp add: lenient_env_def test_env_def)
  have reg: "post_blink_create lenient_env lenient_request Missing =
     (Status 201 (Channel_created (str ''/api/test-show'') (str ''Test Show'')),
      Json \<lparr>blinks = [lenient_blink]\<rparr>)"
    by (simp add: create_valid[OF v k d] w n r lenient_blink_def)
  have f: "findBlink lenient_env (str ''Test Show'') \<lparr>blinks = [lenient_blink]\<rparr> = Some lenient_blink"
    by (simp add: findBlink_def r lenient_blink_def newBlink_def)
  have p: "publicKey lenient_blink = key_1"
    by (simp add: lenient_blink_def newBlink_def lenient_env_def test_env_def)
  have q: "publicKey lenient_request = key_1 @ [256]"
    by (simp add: lenient_request_def lenient_key_def)
  from reg f p q show ?thesis by simp
qed

section \<open>Names that collide on one route\<close>

text \<open>
  C2. Two valid channel names that differ only in the case of letters and in their white
  space runs have the same route. A request that passes every check of the handler and
  whose name has the route of a record in the file is answered 400 with
  \<^verbatim>\<open>Channel name already exists\<close>, and the file stays as it was; this is the case right
  after a registration that answered 201, for every valid second request whose name has
  the route of the first.
\<close>

theorem colliding_names_rejected:
  "(validateChannelName n1 \<and> validateChannelName n2 \<and> same_name n1 n2 \<longrightarrow>
      deriveRoute env1 n1 = deriveRoute env n2) \<and>
   (valid_request env req \<and> readData disk = Inr data \<and>
    list_ex (\<lambda>b. route b = deriveRoute env (channelName req)) (blinks data) \<longrightarrow>
      post_blink_create env req disk =
        (Status 400 (Error Channel_name_already_exists), disk)) \<and>
   (post_blink_create env1 req1 disk0 = (Status 201 body, disk1) \<and> valid_request env req \<and>
    deriveRoute env (channelName req) = deriveRoute env1 (channelName req1) \<longrightarrow>
      post_blink_create env req disk1 =
        (Status 400 (Error Channel_name_already_exists), disk1))"
proof -
  have dup: "post_blink_create e q f = (Status 400 (Error Channel_name_already_exists), f)"
    if v: "valid_request e q" and d: "readData f = Inr dt"
      and ex: "list_ex (\<lambda>b. route b = deriveRoute e (channelName q)) (blinks dt)"
    for e q f dt
  proof -
    from valid_requestD(9)[OF v] obtain k where "PublicKey_new e (publicKey q) = Inr k" ..
    from create_valid[OF v this d] ex show ?thesis by simp
  qed
  have a: "validateChannelName n1 \<and> validateChannelName n2 \<and> same_name n1 n2 \<longrightarrow>
      deriveRoute env1 n1 = deriveRoute env n2"
    by (simp add: deriveRoute_valid same_name_replace)
  have c: "post_blink_create env req disk1 =
        (Status 400 (Error Channel_name_already_exists), disk1)"
    if reg: "post_blink_create env1 req1 disk0 = (Status 201 body, disk1)"
      and v: "valid_request env req"
      and r: "deriveRoute env (channelName req) = deriveRoute env1 (channelName req1)"
  proof -
    from create_201D[OF reg] obtain dt k where
      disk1: "disk1 = Json (dt\<lparr>blinks := blinks dt @
                [newBlink env1 req1 (deriveRoute env1 (channelName req1)) k]\<rparr>)"
      by blast
    let ?dt1 = "dt\<lparr>blinks := blinks dt @ [newBlink env1 req1 (deriveRoute env1 (channelName req1)) k]\<rparr>"
    have d1: "readData disk1 = Inr ?dt1" by (simp add: disk1 readData_def)
    have "list_ex (\<lambda>b. route b = deriveRoute env (channelName req)) (blinks ?dt1)"
      using r by (simp add: newBlink_def)
    from dup[OF v d1 this] show ?thesis .
  qed
  from a dup c show ?thesis by blast
qed

theorem colliding_names_rejected_witness:
  "validateChannelName (str ''Test Show'') \<and> validateChannelName (str ''TEST   show'') \<and>
   same_name (str ''Test Show'') (str ''TEST   show'') \<and>
   deriveRoute test_env (str ''Test Show'') = deriveRoute test_env (str ''TEST   show'') \<and>
   post_blink_create test_env test_request_2 test_store =
     (Status 400 (Error Channel_name_already_exists), test_store) \<and>
   post_blink_create test_env test_request Missing =
     (Status 201 (Channel_created (str ''/api/test-show'') (str ''Test Show'')), test_store)"
proof -
  have v: "validateChannelName (str ''Test Show'')" "validateChannelName (str ''TEST   show'')"
    by (simp_all add: string_eval)
  have s: "same_name (str ''Test Show'') (str ''TEST   show'')"
    by (simp add: string_eval)
  have n: "channelName test_request = str ''Test Show''"
          "channelName test_request_2 = str ''TEST   show''"
    by (simp_all add: test_request_def test_request_2_def)
  have reg: "post_blink_create test_env test_request Missing =
     (Status 201 (Channel_created (str ''/api/test-show'') (str ''Test Show'')), test_store)"
    by (simp add: test_request_created test_store_def test_blink_def)
  have ex: "list_ex (\<lambda>b. route b = deriveRoute test_env (channelName test_request_2))
              (blinks \<lparr>blinks = [test_blink]\<rparr>)"
    by (simp add: n test_blink_fields) (simp add: string_eval)
  from colliding_names_rejected[where ?n1.0 = "str ''Test Show''" and ?n2.0 = "str ''TEST   show''"
      and env = test_env and req = test_request_2 and disk = test_store
      and data = "\<lparr>blinks = [test_blink]\<rparr>" and ?env1.0 = test_env and ?req1.0 = test_request
      and ?disk0.0 = Missing and ?disk1.0 = test_store
      and body = "Channel_created (str ''/api/test-show'') (str ''Test Show'')"]
    v s n reg ex test_request_2_valid test_store_read
  show ?thesis by simp
qed

section \<open>Which check answers first\<close>

text \<open>
  C3, as amended. The handler answers with the error of the first failing check in the
  order name, description, fee, blank public key, cover image, Telegram link, public
  key format, and leaves the file alone. In particular a request whose name,
  description and fee are fine, whose public key is not blank but does not parse, and
  whose cover image is not a valid URL, is answered with the cover image error.
\<close>

theorem first_failing_check:
  "(first_failure env req = Some e \<longrightarrow>
      post_blink_create env req disk = (Status 400 (Error e), disk)) \<and>
   (validateChannelName (channelName req) \<and>
    10 \<le> length (trim (description req)) \<and> length (description req) \<le> 1000 \<and>
    num_less (Finite 0) (fee req) \<and> num_le (fee req) (Finite 1000) \<and>
    trim (publicKey req) \<noteq> [] \<and> isl (PublicKey_new env (publicKey req)) \<and>
    coverImage_opt req = Some c \<and> c \<noteq> [] \<and> \<not> isValidUrl env c \<longrightarrow>
      post_blink_create env req disk = (Status 400 (Error Invalid_cover_image_URL), disk))"
proof -
  have le: "num_le a (Finite 0) \<longleftrightarrow> \<not> num_less (Finite 0) a" for a
    by (cases a) auto
  have gr: "num_gr a (Finite 1000) \<longleftrightarrow> \<not> num_le a (Finite 1000)" for a
    by (cases a) (auto simp: num_gr_def)
  have "first_failure env req = Some Invalid_cover_image_URL"
    if "validateChannelName (channelName req)"
    "10 \<le> length (trim (description req))" "length (description req) \<le> 1000"
    "num_less (Finite 0) (fee req)" "num_le (fee req) (Finite 1000)"
    "trim (publicKey req) \<noteq> []" "coverImage_opt req = Some c" "c \<noteq> []" "\<not> isValidUrl env c"
    using that by (simp add: first_failure_def validation_checks_def le gr)
  then show ?thesis using create_invalid by blast
qed

theorem first_failing_check_witness:
  "first_failure test_env (test_request\<lparr>channelName := str ''x'', description := []\<rparr>) = Some Invalid_channel_name \<and>
   post_blink_create test_env (test_request\<lparr>channelName := str ''x'', description := []\<rparr>) Missing =
     (Status 400 (Error Invalid_channel_name), Missing) \<and>
   post_blink_create test_env bad_key_and_image Missing =
     (Status 400 (Error Invalid_cover_image_URL), Missing)"
proof -
  have f: "first_failure test_env (test_request\<lparr>channelName := str ''x'', description := []\<rparr>) = Some Invalid_channel_name"
    by (simp add: first_failure_def validation_checks_def test_env_def
      test_request_def string_eval)
  have g: "validateChannelName (channelName bad_key_and_image) \<and>
    10 \<le> length (trim (description bad_key_and_image)) \<and> length (description bad_key_and_image) \<le> 1000 \<and>
    num_less (Finite 0) (fee bad_key_and_image) \<and> num_le (fee bad_key_and_image) (Finite 1000) \<and>
    trim (publicKey bad_key_and_image) \<noteq> [] \<and> isl (PublicKey_new test_env (publicKey bad_key_and_image)) \<and>
    coverImage_opt bad_key_and_image = Some (str ''not a url'') \<and> str ''not a url'' \<noteq> [] \<and> \<not> isValidUrl test_env (str ''not a url'')"
    by (simp add: test_env_def test_request_def bad_key_and_image_def isValidUrl_def string_eval)
  from first_failing_check[of test_env "test_request\<lparr>channelName := str ''x'', description := []\<rparr>" Invalid_channel_name Missing "str ''not a url''"]
    first_failing_check[of test_env bad_key_and_image Invalid_channel_name Missing "str ''not a url''"] f g
  show ?thesis by simp
qed

text \<open>
  C3, as stated, fails: the request below has a public key that is not blank and does
  not parse, and a cover image that is no URL; the answer is the cover image error, not
  an address error.
\<close>

theorem address_does_not_precede_cover_image:
  "trim (publicKey bad_key_and_image) \<noteq> [] \<and>
   isl (PublicKey_new test_env (publicKey bad_key_and_image)) \<and>
   post_blink_create test_env bad_key_and_image Missing =
     (Status 400 (Error Invalid_cover_image_URL), Missing)"
proof -
  have f: "first_failure test_env bad_key_and_image = Some Invalid_cover_image_URL"
    by (simp add: first_failure_def validation_checks_def test_env_def
      test_request_def bad_key_and_image_def isValidTelegramLink_def isValidUrl_def num_gr_def string_eval)
  have "trim (publicKey bad_key_and_image) \<noteq> []"
    by (simp add: bad_key_and_image_def string_eval)
  moreover have "isl (PublicKey_new test_env (publicKey bad_key_and_image))"
    by (simp add: bad_key_and_image_def test_env_def string_eval)
  ultimately show ?thesis using create_invalid[OF f] by simp
qed

section \<open>A save that fails\<close>

text \<open>
  C4, as amended. When \<^verbatim>\<open>fs.writeFile\<close> rejects, the handler never answers 201; either
  it leaves the file as it was (an earlier check answered), or it answers 500 with
  \<^verbatim>\<open>Error saving data\<close> and the file is what the failed write left behind. The
  second case is the one of a valid request for a route that is not in the file. So
  the store is unchanged when the failed write did not touch the file.
\<close>

theorem failed_save:
  assumes "fs_writeFile env = Write_failed f"
  shows "(\<forall>b. fst (post_blink_create env req disk) \<noteq> Status 201 b) \<and>
         (snd (post_blink_create env req disk) = disk \<or>
          post_blink_create env req disk = (Status 500 (Error Error_saving_data), f)) \<and>
         (valid_request env req \<and> readData disk = Inr data \<and>
          \<not> list_ex (\<lambda>b. route b = deriveRoute env (channelName req)) (blinks data) \<longrightarrow>
            post_blink_create env req disk = (Status 500 (Error Error_saving_data), f))"
proof (cases "first_failure env req")
  case (Some e)
  then have "\<not> valid_request env req" by (simp add: valid_request_def)
  with create_invalid[OF Some, of disk] show ?thesis by simp
next
  case None
  then have v: "valid_request env req" by (simp add: valid_request_def)
  from valid_requestD(9)[OF v] obtain k where k: "PublicKey_new env (publicKey req) = Inr k" ..
  from readData_total obtain d where d: "readData disk = Inr d" ..
  from create_valid[OF v k d] assms have
    "post_blink_create env req disk =
       (if list_ex (\<lambda>b. route b = deriveRoute env (channelName req)) (blinks d)
        then (Status 400 (Error Channel_name_already_exists), disk)
        else (Status 500 (Error Error_saving_data), f))"
    by simp
  with d show ?thesis by auto
qed

theorem failed_save_witness:
  "fs_writeFile write_refused = Write_failed test_store \<and>
   post_blink_create write_refused other_request test_store =
     (Status 500 (Error Error_saving_data), test_store)"
proof -
  have w: "fs_writeFile write_refused = Write_failed test_store"
    by (simp add: write_refused_def)
  have v: "valid_request write_refused other_request"
    by (simp add: write_refused_def env_update_valid other_request_valid)
  from failed_save[OF w, of other_request test_store "\<lparr>blinks = [test_blink]\<rparr>"]
    v test_store_read other_request_fresh w
  show ?thesis by simp
qed

text \<open>
  C4, as stated, fails: when the write stops after \<^verbatim>\<open>fs.writeFile\<close> has truncated the
  file, the registration answers 500 and the next load no longer sees the record that
  the file held before the call.
\<close>

theorem failed_write_loses_store:
  "post_blink_create write_truncates other_request test_store =
     (Status 500 (Error Error_saving_data), Corrupt) \<and>
   readData test_store = Inr \<lparr>blinks = [test_blink]\<rparr> \<and>
   readData (snd (post_blink_create write_truncates other_request test_store)) = Inr \<lparr>blinks = []\<rparr>"
proof -
  have w: "fs_writeFile write_truncates = Write_failed Corrupt"
    by (simp add: write_truncates_def)
  have v: "valid_request write_truncates other_request"
    by (simp add: write_truncates_def env_update_valid other_request_valid)
  from valid_requestD(9)[OF v] obtain k where
    k: "PublicKey_new write_truncates (publicKey other_request) = Inr k" ..
  from create_valid[OF v k test_store_read] other_request_fresh w
  have "post_blink_create write_truncates other_request test_store =
     (Status 500 (Error Error_saving_data), Corrupt)" by simp
  then show ?thesis by (simp add: test_store_read) (simp add: readData_def)
qed

section \<open>The amount of the transfer\<close>




section \<open>Read failures\<close>

text \<open>
  C6 fails on the code. \<^verbatim>\<open>readData\<close> returns the empty collection for a file that
  cannot be read and for a file that is not JSON, exactly as for a missing file: the
  listing then answers 200 with no channel, a lookup answers 404, and a registration
  succeeds and replaces the file.
\<close>

theorem read_failures_are_swallowed:
  "readData Denied = Inr \<lparr>blinks = []\<rparr> \<and> readData Corrupt = Inr \<lparr>blinks = []\<rparr> \<and>
   readData Missing = Inr \<lparr>blinks = []\<rparr> \<and>
   get_channels_list Corrupt = Status 200 (Channels []) \<and>
   get_channel test_env (str ''Test Show'') Denied = Status 404 (Error Channel_not_found) \<and>
   fst (post_blink_create test_env test_request Corrupt) =
     Status 201 (Channel_created (str ''/api/test-show'') (str ''Test Show''))"
proof -
  have k: "PublicKey_new test_env (publicKey test_request) = Inr (replicate 32 0)"
    by (simp add: test_env_def test_request_def)
  have d: "readData Corrupt = Inr \<lparr>blinks = []\<rparr>" by (simp add: readData_def)
  have r: "deriveRoute test_env (str ''Test Show'') = str ''/api/test-show''"
    by (simp add: string_eval)
  have w: "fs_writeFile test_env = Written" by (simp add: test_env_def)
  have n: "channelName test_request = str ''Test Show''" by (simp add: test_request_def)
  have "fst (post_blink_create test_env test_request Corrupt) =
     Status 201 (Channel_created (str ''/api/test-show'') (str ''Test Show''))"
    by (simp add: create_valid[OF test_request_valid k d] w n r)
  then show ?thesis
    by (simp add: readData_def get_channels_list_def get_channel_def findBlink_def)
qed

section \<open>The bounds of a description\<close>

text \<open>
  C7, as amended. For a request with a valid channel name, the handler answers with the
  description error exactly when the trimmed description has fewer than 10 code units
  or the description as sent has more than 1000.
\<close>

theorem description_check:
  assumes "validateChannelName (channelName req)"
  shows "fst (post_blink_create env req disk) =
           Status 400 (Error Description_must_be_between_10_and_1000_characters)
         \<longleftrightarrow> length (trim (description req)) < 10 \<or> 1000 < length (description req)"
proof (cases "first_failure env req")
  case None
  then have v: "valid_request env req" by (simp add: valid_request_def)
  from valid_requestD(9)[OF v] obtain k where k: "PublicKey_new env (publicKey req) = Inr k" ..
  from readData_total obtain data where d: "readData disk = Inr data" ..
  from create_valid[OF v k d] valid_requestD(2,3)[OF v] show ?thesis
    by (auto split: write_outcome.splits)
next
  case (Some e)
  from create_invalid[OF Some] have r: "fst (post_blink_create env req disk) = Status 400 (Error e)"
    by simp
  from Some assms have "e = Description_must_be_between_10_and_1000_characters
      \<longleftrightarrow> length (trim (description req)) < 10 \<or> 1000 < length (description req)"
    by (auto simp: first_failure_def validation_checks_def split: if_splits)
  with r show ?thesis by simp
qed

theorem description_check_witness:
  "validateChannelName (channelName test_request) \<and>
   fst (post_blink_create test_env (test_request\<lparr>description := replicate 9 97\<rparr>) Missing) =
     Status 400 (Error Description_must_be_between_10_and_1000_characters) \<and>
   fst (post_blink_create test_env (test_request\<lparr>description := replicate 1001 97\<rparr>) Missing) =
     Status 400 (Error Description_must_be_between_10_and_1000_characters) \<and>
   fst (post_blink_create test_env (test_request\<lparr>description := replicate 10 97\<rparr>) Missing) \<noteq>
     Status 400 (Error Description_must_be_between_10_and_1000_characters) \<and>
   fst (post_blink_create test_env (test_request\<lparr>description := replicate 1000 97\<rparr>) Missing) \<noteq>
     Status 400 (Error Description_must_be_between_10_and_1000_characters)"
proof -
  have v: "validateChannelName (channelName test_request)"
    by (simp add: test_request_def string_eval)
  then have w: "validateChannelName (channelName (test_request\<lparr>description := d\<rparr>))" for d
    by simp
  from description_check[OF w, of test_env "replicate 9 97" Missing]
    description_check[OF w, of test_env "replicate 1001 97" Missing]
    description_check[OF w, of test_env "replicate 10 97" Missing]
    description_check[OF w, of test_env "replicate 1000 97" Missing] v
  show ?thesis by (simp add: trim_letters)
qed

text \<open>
  C7, as stated, fails: a description of 1000 letters and one trailing space has a
  trimmed length of 1000 and is answered with the description error.
\<close>

theorem description_bound_counterexample:
  "length (trim padded_description) = 1000 \<and>
   post_blink_create test_env (test_request\<lparr>description := padded_description\<rparr>) Missing =
     (Status 400 (Error Description_must_be_between_10_and_1000_characters), Missing)"
proof -
  have v: "validateChannelName (channelName (test_request\<lparr>description := padded_description\<rparr>))"
    by (simp add: test_request_def string_eval)
  have l: "1000 < length (description (test_request\<lparr>description := padded_description\<rparr>))"
    by (simp add: padded_description_def)
  have "first_failure test_env (test_request\<lparr>description := padded_description\<rparr>)
          = Some Description_must_be_between_10_and_1000_characters"
    using v l by (simp add: first_failure_def validation_checks_def)
  from create_invalid[OF this] show ?thesis by (simp add: trim_padded)
qed

section \<open>The listing\<close>

text \<open>
  C8. Two stores that are equal once the \<^verbatim>\<open>publicKey\<close> of every record is blanked get
  the same answer from \<^verbatim>\<open>app.get('/api/channels/list')\<close>. More, two stores whose records
  agree in \<^verbatim>\<open>channelName\<close>, \<^verbatim>\<open>description\<close>, \<^verbatim>\<open>fee\<close>, \<^verbatim>\<open>route\<close> and \<^verbatim>\<open>createdAt\<close>
  get the same answer, whatever their other fields hold; and the answer is status 200
  with one summary for each record, in order, made of these five fields of the record
  and nothing else.
\<close>

theorem list_hides_publicKey:
  "(without_publicKey d1 = without_publicKey d2 \<longrightarrow>
      get_channels_list (Json d1) = get_channels_list (Json d2)) \<and>
   (map public_fields (blinks d1) = map public_fields (blinks d2) \<longrightarrow>
      get_channels_list (Json d1) = get_channels_list (Json d2)) \<and>
   get_channels_list (Json d) =
     Status 200 (Channels
       (map (\<lambda>b. Summary (channelName b) (description b) (fee b) (route b) (createdAt b))
          (blinks d)))"
proof -
  let ?s = "\<lambda>b::BlinkData. Summary (channelName b) (description b) (fee b) (route b) (createdAt b)"
  let ?t = "\<lambda>(n, ds, f, r, c). Summary n ds f r c"
  have l: "get_channels_list (Json x) = Status 200 (Channels (map ?s (blinks x)))"
    for x :: StorageData
    by (simp add: get_channels_list_def readData_def)
  have w: "map ?s (blinks x) = map ?s (without_publicKey x)" for x :: StorageData
    by (simp add: without_publicKey_def)
  have p: "map ?s (blinks x) = map ?t (map public_fields (blinks x))" for x :: StorageData
    by (simp add: public_fields_def)
  have 1: "get_channels_list (Json d1) = get_channels_list (Json d2)"
    if "without_publicKey d1 = without_publicKey d2"
    using that w[of d1] w[of d2] by (simp add: l)
  have 2: "get_channels_list (Json d1) = get_channels_list (Json d2)"
    if "map public_fields (blinks d1) = map public_fields (blinks d2)"
    using that p[of d1] p[of d2] by (simp add: l)
  from 1 2 l show ?thesis by blast
qed

theorem list_hides_publicKey_witness:
  "test_blink \<noteq> test_blink\<lparr>publicKey := key_2\<rparr> \<and>
   get_channels_list (Json \<lparr>blinks = [test_blink]\<rparr>) =
     get_channels_list (Json \<lparr>blinks = [test_blink\<lparr>publicKey := key_2\<rparr>]\<rparr>) \<and>
   telegramLink test_blink \<noteq> telegramLink test_blink_private \<and>
   link test_blink \<noteq> link test_blink_private \<and>
   coverImage test_blink \<noteq> coverImage test_blink_private \<and>
   get_channels_list (Json \<lparr>blinks = [test_blink]\<rparr>) =
     get_channels_list (Json \<lparr>blinks = [test_blink_private]\<rparr>) \<and>
   get_channels_list (Json \<lparr>blinks = [test_blink]\<rparr>) =
     Status 200 (Channels [Summary (str ''Test Show'') (str ''Support my show please'')
       (Finite (1 / 2)) (str ''/api/test-show'') (str ''2024-01-01T00:00:00.000Z'')])"
proof -
  have a: "without_publicKey \<lparr>blinks = [test_blink]\<rparr> =
        without_publicKey \<lparr>blinks = [test_blink\<lparr>publicKey := key_2\<rparr>]\<rparr>"
    by (simp add: without_publicKey_def)
  have b: "map public_fields (blinks \<lparr>blinks = [test_blink]\<rparr>) =
        map public_fields (blinks \<lparr>blinks = [test_blink_private]\<rparr>)"
    by (simp add: public_fields_def test_blink_private_def)
  have n: "test_blink \<noteq> test_blink\<lparr>publicKey := key_2\<rparr>"
    "telegramLink test_blink \<noteq> telegramLink test_blink_private"
    "link test_blink \<noteq> link test_blink_private"
    "coverImage test_blink \<noteq> coverImage test_blink_private"
    by (simp_all add: test_blink_private_def test_blink_def newBlink_def test_env_def
        test_request_def or_else_def key_1_def key_2_def str_def)
  have f: "channelName test_blink = str ''Test Show''"
    "description test_blink = str ''Support my show please''"
    "createdAt test_blink = str ''2024-01-01T00:00:00.000Z''"
    by (simp_all add: test_blink_def newBlink_def test_request_def test_env_def)
  note t = list_hides_publicKey[where ?d1.0 = "\<lparr>blinks = [test_blink]\<rparr>"
      and ?d2.0 = "\<lparr>blinks = [test_blink\<lparr>publicKey := key_2\<rparr>]\<rparr>"
      and d = "\<lparr>blinks = [test_blink]\<rparr>"]
  from t a
  have 1: "get_channels_list (Json \<lparr>blinks = [test_blink]\<rparr>) =
     get_channels_list (Json \<lparr>blinks = [test_blink\<lparr>publicKey := key_2\<rparr>]\<rparr>)"
    by blast
  from t
  have "get_channels_list (Json \<lparr>blinks = [test_blink]\<rparr>) =
     Status 200 (Channels
       (map (\<lambda>b. Summary (channelName b) (description b) (fee b) (route b) (createdAt b))
          (blinks \<lparr>blinks = [test_blink]\<rparr>)))"
    by blast
  then have 3: "get_channels_list (Json \<lparr>blinks = [test_blink]\<rparr>) =
     Status 200 (Channels [Summary (str ''Test Show'') (str ''Support my show please'')
       (Finite (1 / 2)) (str ''/api/test-show'') (str ''2024-01-01T00:00:00.000Z'')])"
    by (simp add: f test_blink_fields)
  from list_hides_publicKey[where ?d1.0 = "\<lparr>blinks = [test_blink]\<rparr>"
      and ?d2.0 = "\<lparr>blinks = [test_blink_private]\<rparr>"
      and d = "\<lparr>blinks = [test_blink]\<rparr>"] b
  have 2: "get_channels_list (Json \<lparr>blinks = [test_blink]\<rparr>) =
     get_channels_list (Json \<lparr>blinks = [test_blink_private]\<rparr>)"
    by blast
  from 1 2 3 n show ?thesis by blast
qed

section \<open>A ledger that cannot be reached\<close>

text \<open>
  C9 fails on the code. When \<^verbatim>\<open>getLatestBlockhash\<close> throws an \<^verbatim>\<open>Error\<close>, the
  handler answers with status 400 and the message of the error, where a failing
  \<^verbatim>\<open>getBalance\<close> in the same handler is answered with status 500.
\<close>

theorem blockhash_failure_is_answered_400:
  "post_channel ledger_down (str ''Test Show'') (Some key_2) test_store =
     Status 400 (Error (Message (str ''fetch failed''))) \<and>
   post_channel balance_down (str ''Test Show'') (Some key_2) test_store =
     Status 500 (Error Error_checking_balance)"
proof -
  have 1: "key_2 \<noteq> []" "PublicKey_new ledger_down key_2 = Inr (replicate 31 0 @ [1])"
    by (simp_all add: ledger_down_def test_env_def key_1_def key_2_def str_def)
  have 2: "PublicKey_new ledger_down (publicKey test_blink) = Inr (replicate 32 0)"
    by (simp add: test_blink_fields) (simp add: ledger_down_def test_env_def)
  have 3: "getBalance ledger_down (replicate 31 0 @ [1]) = Inr (Finite 5000000000)"
    by (simp add: ledger_down_def test_env_def)
  have 4: "\<not> num_less (Finite 5000000000) (times_LAMPORTS_PER_SOL (fee test_blink))"
    by (simp add: test_blink_fields half_sol)
  have 5: "SystemProgram_transfer ledger_down (transferParams test_blink (replicate 31 0 @ [1]) (replicate 32 0)) = Inr [2, 0, 0, 0]"
    by (simp add: ledger_down_def test_env_def)
  have a: "post_channel ledger_down (str ''Test Show'') (Some key_2) test_store =
     Status 400 (Error (Message (str ''fetch failed'')))"
    unfolding post_channel_steps[OF refl 1 test_store_read test_store_find 2 3 4 5]
    by (simp add: ledger_down_def post_catch_def)
  have 6: "PublicKey_new balance_down key_2 = Inr (replicate 31 0 @ [1])"
    by (simp_all add: balance_down_def test_env_def key_1_def key_2_def str_def)
  have 7: "PublicKey_new balance_down (publicKey test_blink) = Inr (replicate 32 0)"
    by (simp add: test_blink_fields) (simp add: balance_down_def test_env_def)
  have 8: "getBalance balance_down (replicate 31 0 @ [1]) = Inl (Error_instance (str ''fetch failed''))"
    by (simp add: balance_down_def)
  have b: "post_channel balance_down (str ''Test Show'') (Some key_2) test_store =
     Status 500 (Error Error_checking_balance)"
    unfolding post_channel_def using 1(1) 6 7 8 test_store_read test_store_find by simp
  from a b show ?thesis by simp
qed

section \<open>Names of white space only\<close>

text \<open>
  C10. Every name of 3 to 50 white space code units passes \<^verbatim>\<open>validateChannelName\<close>
  and has the route \<^verbatim>\<open>/api/-\<close>; once a record with that route is in the file, no
  registration under such a name answers 201 or changes the file.
\<close>

theorem whitespace_only_names:
  assumes "3 \<le> length name" "length name \<le> 50" "list_all isWhiteSpace name"
  shows "validateChannelName name \<and> deriveRoute e name = str ''/api/-'' \<and>
         (\<forall>env req disk data.
            channelName req = name \<and> readData disk = Inr data \<and>
            list_ex (\<lambda>b. route b = str ''/api/-'') (blinks data) \<longrightarrow>
            snd (post_blink_create env req disk) = disk \<and>
            (\<forall>b. fst (post_blink_create env req disk) \<noteq> Status 201 b))"
proof -
  have ne: "name \<noteq> []" using assms(1) by auto
  have "list_all isNameUnit name"
    using assms(3) by (rule list_all_imp) (rule isNameUnit_ws)
  then have v: "validateChannelName name"
    using assms(1,2) by (simp add: validateChannelName_def)
  have "replace_ws (map toLowerCase_unit name) = [45]"
    using assms(3) ne by (simp add: lower_all_ws replace_ws_all_ws)
  then have r: "deriveRoute x name = str ''/api/-''" for x
    by (simp add: deriveRoute_valid[OF v] str_def)
  have "snd (post_blink_create env req disk) = disk \<and>
        (\<forall>b. fst (post_blink_create env req disk) \<noteq> Status 201 b)"
    if "channelName req = name" "readData disk = Inr data"
      "list_ex (\<lambda>b. route b = str ''/api/-'') (blinks data)"
    for env req disk data
    using create_duplicate[of disk data env req] that r[of env] by simp
  with v r[of e] show ?thesis by blast
qed

theorem whitespace_only_names_witness:
  "validateChannelName (str ''   '') \<and> deriveRoute test_env (str ''   '') = str ''/api/-'' \<and>
   deriveRoute test_env [32, 9, 8195, 160] = str ''/api/-'' \<and>
   post_blink_create test_env blank_request Missing =
     (Status 201 (Channel_created (str ''/api/-'') (str ''   '')), Json \<lparr>blinks = [blank_blink]\<rparr>) \<and>
   snd (post_blink_create test_env (test_request\<lparr>channelName := [32, 9, 8195, 160]\<rparr>)
          (Json \<lparr>blinks = [blank_blink]\<rparr>)) = Json \<lparr>blinks = [blank_blink]\<rparr> \<and>
   fst (post_blink_create test_env (test_request\<lparr>channelName := [32, 9, 8195, 160]\<rparr>)
          (Json \<lparr>blinks = [blank_blink]\<rparr>)) \<noteq>
     Status 201 (Channel_created (str ''/api/-'') [32, 9, 8195, 160])"
proof -
  have 1: "3 \<le> length (str ''   '')" "length (str ''   '') \<le> 50"
    "list_all isWhiteSpace (str ''   '')"
    by (simp_all add: str_def isWhiteSpace_def)
  have 2: "3 \<le> length [32, 9, 8195, 160::nat]" "length [32, 9, 8195, 160::nat] \<le> 50"
    "list_all isWhiteSpace [32, 9, 8195, 160]"
    by (simp_all add: isWhiteSpace_def)
  have r: "route blank_blink = str ''/api/-''"
    by (simp add: blank_blink_def newBlink_def)
  have "channelName (test_request\<lparr>channelName := [32, 9, 8195, 160]\<rparr>) = [32, 9, 8195, 160] \<and>
        readData (Json \<lparr>blinks = [blank_blink]\<rparr>) = Inr \<lparr>blinks = [blank_blink]\<rparr> \<and>
        list_ex (\<lambda>b. route b = str ''/api/-'') (blinks \<lparr>blinks = [blank_blink]\<rparr>)"
    by (simp add: readData_def r)
  with whitespace_only_names[OF 1] whitespace_only_names[OF 2] blank_request_created
  show ?thesis by blast
qed

end
